theory Spec2Isabelle
  imports Main "HOL-Library.Word" "HOL-Library.Sublist"
begin

section \<open>The heap-profiler sample: data model\<close>

text \<open>
  The two sample programs of \<^verbatim>\<open>samples/heap-profiler.cc\<close> share one reporter,
  \<^verbatim>\<open>PrintAllocationProfile\<close>, and differ in \<^verbatim>\<open>main\<close>. The types the reporter
  reads are declared in \<^verbatim>\<open>include/v8-profiler.h\<close>; only the fields the samples touch
  are kept here. A \<^verbatim>\<open>size_t\<close> is a 64-bit word, an \<^verbatim>\<open>unsigned int\<close> and an
  \<^verbatim>\<open>int\<close> are 32-bit words, a pointer that may be null is an \<open>option\<close>.
\<close>

type_synonym size_t = "64 word"
type_synonym uint = "32 word"
type_synonym cint = "32 word"

text \<open>
  \<^verbatim>\<open>AllocationProfile::Allocation { size_t size; unsigned int count; }\<close>. The field
  \<^verbatim>\<open>size\<close> is \<open>size_bytes\<close> here, since \<open>size\<close> is a constant of HOL.
\<close>

datatype Allocation = Allocation (size_bytes: size_t) (count: uint)

text \<open>
  \<^verbatim>\<open>AllocationProfile::Node\<close>. The fields \<open>name\<close> and \<open>script_name\<close> hold the bytes
  that \<^verbatim>\<open>String::Utf8Value\<close> produces for the handle (empty for an empty handle or an
  empty string); \<open>children\<close> is a vector of pointers, each of which the traversal
  tests for null.
\<close>

datatype Node = Node
  (name: string)
  (script_name: string)
  (line_number: cint)
  (allocations: "Allocation list")
  (children: "Node option list")

text \<open>\<^verbatim>\<open>AllocationProfile::Sample\<close>; the reporter only counts the samples.\<close>

record Sample =
  node_id :: uint
  sample_size :: size_t
  sample_count :: uint

record AllocationProfile =
  GetRootNode :: "Node option"
  GetSamples :: "Sample list"

section \<open>printf conversions\<close>

definition digit_char :: "nat \<Rightarrow> char" where
  "digit_char d = ''0123456789'' ! d"

function decimal :: "nat \<Rightarrow> string" where
  "decimal n = (if n < 10 then [digit_char n] else decimal (n div 10) @ [digit_char (n mod 10)])"
  by pat_completeness auto
termination
  by (relation "measure id") auto

declare decimal.simps [simp del]

text \<open>\<^verbatim>\<open>%zu\<close>, \<^verbatim>\<open>%u\<close> and \<^verbatim>\<open>%d\<close>.\<close>

definition fmt_zu :: "size_t \<Rightarrow> string" where
  "fmt_zu w = decimal (unat w)"

definition fmt_u :: "uint \<Rightarrow> string" where
  "fmt_u w = decimal (unat w)"

definition fmt_d :: "cint \<Rightarrow> string" where
  "fmt_d w = (if sint w < 0 then ''-'' @ decimal (nat (- sint w)) else decimal (nat (sint w)))"

text \<open>\<^verbatim>\<open>%s\<close> prints a \<^verbatim>\<open>char*\<close> up to its first NUL byte.\<close>

definition fmt_s :: "string \<Rightarrow> string" where
  "fmt_s s = takeWhile (\<lambda>c. c \<noteq> CHR 0x00) s"

section \<open>PrintAllocationProfile\<close>

text \<open>
  Standard output is append-only, so each function below returns the text its call
  writes, in the order of the \<^verbatim>\<open>printf\<close> calls.

  \<^verbatim>\<open>for (int i = 0; i < depth; i++) printf("  ");\<close> The depth starts at 0 and only
  grows by one per tree level, so it is a natural number here.
\<close>

fun indent :: "nat \<Rightarrow> string" where
  "indent 0 = []"
| "indent (Suc i) = ''  '' @ indent i"

text \<open>
  The accumulation loop of the traversal:
  \<^verbatim>\<open>total_size += alloc.size * alloc.count; total_count += alloc.count;\<close>
  The count is converted to \<^verbatim>\<open>size_t\<close> before the multiplication.
\<close>

definition sum_allocations :: "Allocation list \<Rightarrow> size_t \<times> uint" where
  "sum_allocations allocs =
     fold (\<lambda>alloc (total_size, total_count).
             (total_size + size_bytes alloc * ucast (count alloc), total_count + count alloc))
          allocs (0, 0)"

text \<open>
  The locals \<^verbatim>\<open>func_name\<close> and \<^verbatim>\<open>script_name\<close> (\<open>script_name_str\<close> here, next to
  the field of the same name): the converted string if its length is positive, a fixed
  literal otherwise.
\<close>

definition func_name :: "Node \<Rightarrow> string" where
  "func_name node = (if length (name node) > 0 then fmt_s (name node) else ''<anonymous>'')"

definition script_name_str :: "Node \<Rightarrow> string" where
  "script_name_str node =
     (if length (script_name node) > 0 then fmt_s (script_name node) else ''<unknown>'')"

text \<open>The two \<^verbatim>\<open>printf\<close> lines under \<^verbatim>\<open>if (total_count > 0)\<close>.\<close>

definition header_line :: "Node \<Rightarrow> string" where
  "header_line node =
     ''Function: '' @ func_name node @ '' (Script: '' @ script_name_str node
       @ '', Line: '' @ fmt_d (line_number node) @ '')\<newline>''"

definition summary_line :: "size_t \<Rightarrow> uint \<Rightarrow> string" where
  "summary_line total_size total_count =
     ''  -> Total: '' @ fmt_zu total_size @ '' bytes, Count: '' @ fmt_u total_count @ ''\<newline>''"

text \<open>The lambda \<^verbatim>\<open>traverse\<close>.\<close>

function traverse :: "Node option \<Rightarrow> nat \<Rightarrow> string" where
  "traverse None depth = []"
| "traverse (Some node) depth =
     indent depth
     @ (case sum_allocations (allocations node) of (total_size, total_count) \<Rightarrow>
          if total_count > 0
          then header_line node @ indent depth @ summary_line total_size total_count
          else [])
     @ concat (map (\<lambda>child. traverse child (depth + 1)) (children node))"
  by pat_completeness auto
termination
proof (relation "measure (\<lambda>(node, depth). size_option size node)")
  show "wf (measure (\<lambda>(node, depth). size_option size node))" by simp
next
  fix node :: Node and depth :: nat and child
  assume "child \<in> set (children node)"
  then have "size_option size child \<le> size_list (size_option size) (children node)"
    by (simp add: size_list_estimation')
  also have "\<dots> < size node" by (cases node) simp
  finally show "((child, depth + 1), (Some node, depth))
      \<in> measure (\<lambda>(node, depth). size_option size node)"
    by simp
qed

definition PrintAllocationProfile :: "AllocationProfile option \<Rightarrow> string" where
  "PrintAllocationProfile profile =
     (case profile of
        None \<Rightarrow> ''No allocation profile available\<newline>''
      | Some p \<Rightarrow>
          ''=== Allocation Profile ===\<newline>''
          @ ''Total samples: '' @ fmt_zu (of_nat (length (GetSamples p))) @ ''\<newline>''
          @ (case GetRootNode p of
               None \<Rightarrow> ''No root node found\<newline>''
             | Some root \<Rightarrow> traverse (Some root) 0))"

section \<open>The two main functions\<close>

text \<open>
  The file holds two sample programs. The first (\<open>main_embedded\<close> below) runs a script
  embedded in the source and then reports the allocation profile and the heap
  statistics. The second (\<open>main_file\<close>) reads the script from the file named by its
  first argument; its call of \<^verbatim>\<open>PrintAllocationProfile\<close> and its loop over the heap
  spaces are commented out in the source.

  The V8 runtime is outside the samples. What it answers is a parameter of the model
  (\<open>runtime\<close>), and the calls that the program makes into it are recorded in order
  (\<open>calls\<close>), so that "nothing of the runtime has been touched yet" is the empty list.
  Scope objects and the loop bound \<^verbatim>\<open>NumberOfHeapSpaces()\<close> are not recorded, and
  what the runtime itself writes when it aborts is not part of the output.
\<close>

record HeapStatistics =
  total_heap_size :: size_t
  used_heap_size :: size_t
  heap_size_limit :: size_t
  number_of_native_contexts :: size_t
  total_allocated_bytes :: size_t

record HeapSpaceStatistics =
  space_name :: string
  space_size :: size_t
  space_used_size :: size_t

text \<open>
  What compiling and running a source does: each of \<^verbatim>\<open>String::NewFromUtf8\<close>,
  \<^verbatim>\<open>Script::Compile\<close> and \<^verbatim>\<open>Script::Run\<close> may return an empty handle, on which
  \<^verbatim>\<open>ToLocalChecked\<close> aborts the process. A run carries the argument lists of the
  calls of the global \<^verbatim>\<open>print\<close> function it made (each argument already converted by
  \<^verbatim>\<open>String::Utf8Value\<close>) and, when it completes, the converted completion value.
\<close>

datatype script_outcome =
    NoSource
  | NoScript
  | NoResult "string list list"
  | Completed "string list list" string

record runtime =
  files :: "string \<Rightarrow> string option"
  execute :: "string \<Rightarrow> script_outcome"
  allocation_profile :: "AllocationProfile option"
  heap_stats :: HeapStatistics
  heap_space_stats :: "HeapSpaceStatistics list"

datatype v8_call =
    InitializeICUDefaultLocation string
  | InitializeExternalStartupData string
  | NewDefaultPlatform
  | InitializePlatform
  | SetFlagsFromString string
  | Initialize
  | NewDefaultAllocator
  | Isolate_New
  | Context_New
  | Global_Set string
  | GetHeapProfiler
  | StartSamplingHeapProfiler nat nat
  | String_NewFromUtf8 string
  | Script_Compile
  | Script_Run
  | GetAllocationProfile
  | StopSamplingHeapProfiler
  | GetHeapStatistics
  | GetHeapSpaceStatistics nat
  | Delete_profile
  | Isolate_Dispose
  | Delete_allocator
  | V8_Dispose
  | V8_DisposePlatform

datatype exit_status = Exit int | Abort

text \<open>
  The observable result of a run: the text given to \<^verbatim>\<open>printf\<close>, the text given to
  \<^verbatim>\<open>std::cerr\<close>, the calls into the runtime, and how the process ended.
\<close>

record run =
  stdout :: string
  stderr :: string
  calls :: "v8_call list"
  status :: exit_status

text \<open>The script of the first program (the raw string literal \<^verbatim>\<open>js_code\<close>).\<close>

definition js_code :: string where
  "js_code =
     ''\<newline>''
     @ ''      // Create objects that will generate allocations\<newline>''
     @ ''      var objects = [];\<newline>''
     @ ''\<newline>''
     @ ''      function createLargeObjects() {\<newline>''
     @ ''        for (let i = 0; i < 50; i++) {\<newline>''
     @ ''          objects.push({\<newline>''
     @ ''            id: i,\<newline>''
     @ ''            data: new Array(200).fill('item_' + i),\<newline>''
     @ ''            nested: {\<newline>''
     @ ''              value: 'test_string_' + i,\<newline>''
     @ ''              array: new Array(100).fill(i)\<newline>''
     @ ''            }\<newline>''
     @ ''          });\<newline>''
     @ ''        }\<newline>''
     @ ''        return objects.length;\<newline>''
     @ ''      }\<newline>''
     @ ''\<newline>''
     @ ''      function createStrings() {\<newline>''
     @ ''        var strings = [];\<newline>''
     @ ''        for (let i = 0; i < 100; i++) {\<newline>''
     @ ''          strings.push('This is test string number ' + i + ' with some additional content');\<newline>''
     @ ''        }\<newline>''
     @ ''        return strings.length;\<newline>''
     @ ''      }\<newline>''
     @ ''\<newline>''
     @ ''      function createMaps() {\<newline>''
     @ ''        var map = new Map();\<newline>''
     @ ''        for (let i = 0; i < 50; i++) {\<newline>''
     @ ''          map.set('key_' + i, 'value_' + i);\<newline>''
     @ ''        }\<newline>''
     @ ''        return map.size;\<newline>''
     @ ''      }\<newline>''
     @ ''\<newline>''
     @ ''      // Execute allocation-heavy functions\<newline>''
     @ ''      var objectCount = createLargeObjects();\<newline>''
     @ ''      var stringCount = createStrings();\<newline>''
     @ ''      var mapSize = createMaps();\<newline>''
     @ ''\<newline>''
     @ ''      'Created ' + objectCount + ' objects, ' + stringCount + ' strings, and map with ' + mapSize + ' entries';\<newline>''
     @ ''    ''"

text \<open>The statistics blocks of the first program.\<close>

definition heap_statistics_block :: "HeapStatistics \<Rightarrow> string" where
  "heap_statistics_block heap_stats' =
     ''\<newline>=== Heap Statistics ===\<newline>''
     @ ''Total heap size: '' @ fmt_zu (total_heap_size heap_stats') @ '' bytes\<newline>''
     @ ''Used heap size: '' @ fmt_zu (used_heap_size heap_stats') @ '' bytes\<newline>''
     @ ''Heap size limit: '' @ fmt_zu (heap_size_limit heap_stats') @ '' bytes\<newline>''
     @ ''Number of native contexts: '' @ fmt_zu (number_of_native_contexts heap_stats')
     @ ''\<newline>''"

definition heap_space_block :: "HeapSpaceStatistics \<Rightarrow> string" where
  "heap_space_block heap_space_stats' =
     ''\<newline>=== Heap Space Statistics ===\<newline>''
     @ ''Space name: '' @ fmt_s (space_name heap_space_stats') @ ''\<newline>''
     @ ''Total space size: '' @ fmt_zu (space_size heap_space_stats') @ '' bytes\<newline>''
     @ ''Used space size: '' @ fmt_zu (space_used_size heap_space_stats') @ '' bytes\<newline>''"

text \<open>
  \<^verbatim>\<open>for (size_t i = 0; i < isolate->NumberOfHeapSpaces(); i++)\<close>: the runtime has
  \<open>length (heap_space_stats rt)\<close> spaces, and \<^verbatim>\<open>GetHeapSpaceStatistics(&s, i)\<close> fills
  in the \<open>i\<close>-th.
\<close>

definition heap_spaces_loop :: "runtime \<Rightarrow> string" where
  "heap_spaces_loop rt =
     concat (map (\<lambda>i. heap_space_block (heap_space_stats rt ! i))
                 [0..<length (heap_space_stats rt)])"

text \<open>
  The first program. \<open>argv0\<close> is \<^verbatim>\<open>argv[0]\<close> and \<open>args\<close> the arguments after it, so
  \<^verbatim>\<open>argc\<close> is \<open>Suc (length args)\<close>; this program reads \<^verbatim>\<open>argv[0]\<close> only. It
  installs no \<^verbatim>\<open>print\<close> function, so a run of its script writes nothing by itself.
\<close>

definition main_embedded :: "string \<Rightarrow> string list \<Rightarrow> runtime \<Rightarrow> run" where
  "main_embedded argv0 args rt =
     (let init = [InitializeICUDefaultLocation argv0, InitializeExternalStartupData argv0,
                  NewDefaultPlatform, InitializePlatform, Initialize, NewDefaultAllocator,
                  Isolate_New, Context_New, GetHeapProfiler,
                  StartSamplingHeapProfiler 1024 16];
          out1 = ''=== V8 Heap Profiler Example ===\<newline>''
                 @ ''Starting allocation sampling...\<newline>''
                 @ ''Executing JavaScript code to generate allocations...\<newline>''
      in case execute rt js_code of
           NoSource \<Rightarrow>
             \<lparr>stdout = out1, stderr = [],
              calls = init @ [String_NewFromUtf8 js_code], status = Abort\<rparr>
         | NoScript \<Rightarrow>
             \<lparr>stdout = out1, stderr = [],
              calls = init @ [String_NewFromUtf8 js_code, Script_Compile], status = Abort\<rparr>
         | NoResult prints \<Rightarrow>
             \<lparr>stdout = out1, stderr = [],
              calls = init @ [String_NewFromUtf8 js_code, Script_Compile, Script_Run],
              status = Abort\<rparr>
         | Completed prints result \<Rightarrow>
             \<lparr>stdout = out1
                @ ''Result: '' @ fmt_s result @ ''\<newline>''
                @ ''Stopping allocation sampling...\<newline>''
                @ PrintAllocationProfile (allocation_profile rt)
                @ heap_statistics_block (heap_stats rt)
                @ heap_spaces_loop rt
                @ ''Heap profiler example completed successfully!\<newline>'',
              stderr = [],
              calls = init
                @ [String_NewFromUtf8 js_code, Script_Compile, Script_Run,
                   GetAllocationProfile, StopSamplingHeapProfiler, GetHeapStatistics]
                @ map GetHeapSpaceStatistics [0..<length (heap_space_stats rt)]
                @ [Delete_profile, Isolate_Dispose, Delete_allocator, V8_Dispose,
                   V8_DisposePlatform],
              status = Exit 0\<rparr>)"

text \<open>
  \<^verbatim>\<open>ReadFile\<close>: the text written to \<^verbatim>\<open>std::cerr\<close> and the string returned.
\<close>

definition ReadFile :: "runtime \<Rightarrow> string \<Rightarrow> string \<times> string" where
  "ReadFile rt filename =
     (case files rt filename of
        None \<Rightarrow> (''Error: Could not open file '' @ filename @ ''\<newline>'', [])
      | Some content \<Rightarrow> ([], content))"

text \<open>The callback installed as the global \<^verbatim>\<open>print\<close> by the second program.\<close>

fun print_args :: "nat \<Rightarrow> string list \<Rightarrow> string" where
  "print_args i [] = []"
| "print_args i (str # rest) =
     (if i > 0 then '' '' else []) @ fmt_s str @ print_args (i + 1) rest"

definition print_callback :: "string list \<Rightarrow> string" where
  "print_callback args = print_args 0 args @ ''\<newline>''"

text \<open>The statistics block of the second program.\<close>

definition basic_heap_statistics_block :: "HeapStatistics \<Rightarrow> string" where
  "basic_heap_statistics_block heap_stats' =
     ''\<newline>=== Basic Heap Statistics ===\<newline>''
     @ ''Total heap size: '' @ fmt_zu (total_heap_size heap_stats') @ '' bytes\<newline>''
     @ ''Used heap size: '' @ fmt_zu (used_heap_size heap_stats') @ '' bytes\<newline>''
     @ ''Total allocated bytes: '' @ fmt_zu (total_allocated_bytes heap_stats')
     @ '' bytes\<newline>''"

text \<open>
  The second program. \<^verbatim>\<open>argc < 2\<close> is \<open>args = []\<close>; otherwise \<^verbatim>\<open>argv[1]\<close> is the
  head of \<open>args\<close>. \<^verbatim>\<open>js_code.c_str()\<close> ends at the first NUL byte of the file.
\<close>

definition main_file :: "string \<Rightarrow> string list \<Rightarrow> runtime \<Rightarrow> run" where
  "main_file argv0 args rt =
     (case args of
        [] \<Rightarrow>
          \<lparr>stdout = [],
           stderr = ''Usage: '' @ argv0 @ '' <javascript_file>\<newline>''
                    @ ''Example: '' @ argv0 @ '' test.js\<newline>'',
           calls = [], status = Exit 1\<rparr>
      | argv1 # _ \<Rightarrow>
          (let init = [InitializeICUDefaultLocation argv0, InitializeExternalStartupData argv0,
                       NewDefaultPlatform, InitializePlatform,
                       SetFlagsFromString ''--expose-gc'', Initialize, NewDefaultAllocator,
                       Isolate_New, Context_New, Global_Set ''print'', GetHeapProfiler,
                       StartSamplingHeapProfiler 1024 16];
               out1 = ''=== V8 Heap Profiler Example ===\<newline>''
                      @ ''Starting allocation sampling...\<newline>'';
               (err1, js_code') = ReadFile rt argv1
           in if js_code' = []
              then \<lparr>stdout = out1,
                    stderr = err1 @ ''Failed to read JavaScript file: '' @ argv1 @ ''\<newline>'',
                    calls = init, status = Exit 1\<rparr>
              else
                (let out2 = out1 @ ''Executing JavaScript code from file: '' @ argv1
                            @ ''\<newline>''
                 in case execute rt (fmt_s js_code') of
                      NoSource \<Rightarrow>
                        \<lparr>stdout = out2, stderr = err1,
                         calls = init @ [String_NewFromUtf8 (fmt_s js_code')],
                         status = Abort\<rparr>
                    | NoScript \<Rightarrow>
                        \<lparr>stdout = out2, stderr = err1,
                         calls = init @ [String_NewFromUtf8 (fmt_s js_code'), Script_Compile],
                         status = Abort\<rparr>
                    | NoResult prints \<Rightarrow>
                        \<lparr>stdout = out2 @ concat (map print_callback prints), stderr = err1,
                         calls = init @ [String_NewFromUtf8 (fmt_s js_code'), Script_Compile,
                                         Script_Run],
                         status = Abort\<rparr>
                    | Completed prints result \<Rightarrow>
                        \<lparr>stdout = out2 @ concat (map print_callback prints)
                           @ ''Result: '' @ fmt_s result @ ''\<newline>''
                           @ ''Stopping allocation sampling...\<newline>''
                           @ basic_heap_statistics_block (heap_stats rt)
                           @ ''Heap profiler example completed successfully!\<newline>'',
                         stderr = err1,
                         calls = init
                           @ [String_NewFromUtf8 (fmt_s js_code'), Script_Compile, Script_Run,
                              GetAllocationProfile, StopSamplingHeapProfiler,
                              GetHeapStatistics, Delete_profile, Isolate_Dispose,
                              Delete_allocator, V8_Dispose, V8_DisposePlatform],
                         status = Exit 0\<rparr>)))"

section \<open>Reference notions for the report\<close>

text \<open>
  Depth-first pre-order as the specification words it: a node before its children, the
  children in the order in which the vector holds them, each one level deeper. Null
  children hold no node.
\<close>

function preorder :: "Node option \<Rightarrow> nat \<Rightarrow> (Node \<times> nat) list" where
  "preorder None depth = []"
| "preorder (Some node) depth =
     (node, depth) # concat (map (\<lambda>child. preorder child (depth + 1)) (children node))"
  by pat_completeness auto
termination
proof (relation "measure (\<lambda>(node, depth). size_option size node)")
  show "wf (measure (\<lambda>(node, depth). size_option size node))" by simp
next
  fix node :: Node and depth :: nat and child
  assume "child \<in> set (children node)"
  then have "size_option size child \<le> size_list (size_option size) (children node)"
    by (simp add: size_list_estimation')
  also have "\<dots> < size node" by (cases node) simp
  finally show "((child, depth + 1), (Some node, depth))
      \<in> measure (\<lambda>(node, depth). size_option size node)"
    by simp
qed

text \<open>
  What one visit of the traversal writes by itself: the statements of the lambda
  before its loop over the children.
\<close>

definition node_lines :: "Node \<Rightarrow> nat \<Rightarrow> string" where
  "node_lines node depth =
     indent depth
     @ (case sum_allocations (allocations node) of (total_size, total_count) \<Rightarrow>
          if total_count > 0
          then header_line node @ indent depth @ summary_line total_size total_count
          else [])"

section \<open>Pointer reads made explicit\<close>

text \<open>
  To state that no null pointer is dereferenced, the reporter is written once more
  with every read through a pointer (\<^verbatim>\<open>profile->GetSamples()\<close>, \<^verbatim>\<open>node->name\<close>, ...)
  as a \<open>deref\<close> that fails on null. The null tests stand where the source has them,
  and a failed read ends the run.
\<close>

datatype fault = NullDereference

definition deref :: "'a option \<Rightarrow> fault + 'a" where
  "deref p = (case p of None \<Rightarrow> Inl NullDereference | Some x \<Rightarrow> Inr x)"

text \<open>
  The lambda: \<^verbatim>\<open>if (!node) return;\<close>, then the reads of the node's fields, then the
  loop over \<^verbatim>\<open>node->children\<close>.
\<close>

function traverse_checked :: "Node option \<Rightarrow> nat \<Rightarrow> fault + string" where
  "traverse_checked node depth =
     (if node = None then Inr []
      else
        (case deref node of
           Inl fault \<Rightarrow> Inl fault
         | Inr n \<Rightarrow>
             fold (\<lambda>child result.
                     case result of
                       Inl fault \<Rightarrow> Inl fault
                     | Inr out \<Rightarrow>
                         (case traverse_checked child (depth + 1) of
                            Inl fault \<Rightarrow> Inl fault
                          | Inr text \<Rightarrow> Inr (out @ text)))
                  (children n)
                  (Inr (node_lines n depth))))"
  by pat_completeness auto
termination
proof (relation "measure (\<lambda>(node, depth). size_option size node)")
  show "wf (measure (\<lambda>(node, depth). size_option size node))" by simp
next
  fix node :: "Node option" and depth :: nat and n child
    and result :: "fault + string" and out :: string
  assume "deref node = Inr n" and "child \<in> set (children n)"
  then have "node = Some n" and "child \<in> set (children n)"
    by (simp_all add: deref_def split: option.splits)
  moreover have "size_option size child \<le> size_list (size_option size) (children n)"
    using \<open>child \<in> set (children n)\<close> by (simp add: size_list_estimation')
  moreover have "size_list (size_option size) (children n) < size n"
    by (cases n) simp
  ultimately show "((child, depth + 1), (node, depth))
      \<in> measure (\<lambda>(node, depth). size_option size node)"
    by simp
qed

declare traverse_checked.simps [simp del]

definition PrintAllocationProfile_checked :: "AllocationProfile option \<Rightarrow> fault + string" where
  "PrintAllocationProfile_checked profile =
     (if profile = None then Inr ''No allocation profile available\<newline>''
      else
        (case deref profile of
           Inl fault \<Rightarrow> Inl fault
         | Inr p \<Rightarrow>
             (let out = ''=== Allocation Profile ===\<newline>''
                        @ ''Total samples: '' @ fmt_zu (of_nat (length (GetSamples p)))
                        @ ''\<newline>'';
                  root = GetRootNode p
              in if root = None then Inr (out @ ''No root node found\<newline>'')
                 else (case traverse_checked root 0 of
                         Inl fault \<Rightarrow> Inl fault
                       | Inr text \<Rightarrow> Inr (out @ text)))))"

section \<open>Example inputs\<close>

text \<open>
  The round-trip scenario of the specification as a tree: under a root without
  records, a node \<open>A\<close> without records whose children are \<open>B\<close> (16 bytes three times,
  32 bytes once) and \<open>C\<close> (8 bytes five times); a null child sits between them.
\<close>

definition scenario_B :: Node where
  "scenario_B = Node ''B'' ''app.js'' 12 [Allocation 16 3, Allocation 32 1] []"
definition scenario_C :: Node where
  "scenario_C = Node ''C'' '''' 0xFFFFFFFF [Allocation 8 5] []"
definition scenario_A :: Node where
  "scenario_A = Node ''A'' ''app.js'' 3 [] [Some scenario_B, None, Some scenario_C]"
definition scenario_root :: Node where
  "scenario_root = Node '''' '''' 0 [] [Some scenario_A]"

text \<open>
  Nodes for the corner cases of the totals: a record whose count is 0, a record whose
  size times count is \<open>2 ^ 64\<close>, two records whose counts add up to \<open>2 ^ 32 + 1\<close>; and
  the profile of a run without samples.
\<close>

definition zero_count_node :: Node where
  "zero_count_node = Node ''f'' ''a.js'' 7 [Allocation 16 0] []"

definition wrapping_node :: Node where
  "wrapping_node = Node ''g'' ''a.js'' 9 [Allocation 0x8000000000000000 2] []"

definition count_wrapping_node :: Node where
  "count_wrapping_node = Node ''h'' ''a.js'' 11 [Allocation 1 0xFFFFFFFF, Allocation 1 2] []"

definition empty_profile :: AllocationProfile where
  "empty_profile = \<lparr>GetRootNode = Some (Node '''' '''' 0 [] []), GetSamples = []\<rparr>"

text \<open>
  A runtime for the examples: the file \<^verbatim>\<open>test.js\<close> exists, every script completes
  after one call of \<^verbatim>\<open>print\<close> with two arguments, the profile is the scenario tree,
  and there is one heap space.
\<close>

definition sample_runtime :: runtime where
  "sample_runtime =
     \<lparr>files = (\<lambda>f. if f = ''test.js'' then Some ''gc();'' else None),
      execute = (\<lambda>src. Completed [[''Starting'', ''test'']] ''undefined''),
      allocation_profile = Some \<lparr>GetRootNode = Some scenario_root, GetSamples = []\<rparr>,
      heap_stats = \<lparr>total_heap_size = 1000, used_heap_size = 500, heap_size_limit = 4096,
                    number_of_native_contexts = 1, total_allocated_bytes = 2000\<rparr>,
      heap_space_stats = [\<lparr>space_name = ''old_space'', space_size = 300,
                            space_used_size = 200\<rparr>]\<rparr>"

section \<open>Auxiliary facts\<close>

lemma indent_replicate: "indent d = replicate (2 * d) (CHR '' '')"
  by (induction d) simp_all

lemma fold_sum_allocations:
  "fold (\<lambda>alloc (total_size, total_count).
           (total_size + size_bytes alloc * ucast (count alloc), total_count + count alloc))
        allocs (s, c)
   = (s + sum_list (map (\<lambda>a. size_bytes a * ucast (count a)) allocs),
      c + sum_list (map count allocs))"
  by (induction allocs arbitrary: s c) (simp_all add: add.assoc)

lemma sum_allocations_sum_list:
  "sum_allocations allocs
   = (sum_list (map (\<lambda>a. size_bytes a * ucast (count a)) allocs), sum_list (map count allocs))"
  by (simp add: sum_allocations_def fold_sum_allocations)

lemma unat_sum_list:
  "unat (sum_list (map f xs) :: 'a::len word)
   = sum_list (map (\<lambda>x. unat (f x)) xs) mod 2 ^ LENGTH('a)"
proof (induction xs)
  case Nil
  then show ?case by simp
next
  case (Cons x xs)
  have "unat (f x + sum_list (map f xs))
        = (unat (f x) + unat (sum_list (map f xs))) mod 2 ^ LENGTH('a)"
    by (simp add: unat_word_ariths)
  also have "\<dots> = (unat (f x) + sum_list (map (\<lambda>x. unat (f x)) xs)) mod 2 ^ LENGTH('a)"
    by (simp add: Cons.IH mod_add_right_eq)
  finally show ?case by simp
qed

lemma unat_size_times_count:
  "unat (s * ucast (c :: 32 word) :: 64 word) = (unat s * unat c) mod 2 ^ 64"
proof -
  have "unat c < 2 ^ 32" using unsigned_less [of c, where 'a = nat] by simp
  then have "unat c < 2 ^ 64" by (rule less_le_trans) simp
  then have "unat (ucast c :: 64 word) = unat c"
    by (simp add: unsigned_ucast_eq take_bit_nat_eq_self)
  then show ?thesis by (simp add: unat_word_ariths)
qed

lemma sum_list_mod_cong:
  "sum_list (map (\<lambda>x. f x mod m) xs) mod m = sum_list (map f xs) mod (m::nat)"
  by (induction xs) (simp_all, metis mod_add_eq mod_mod_trivial)

lemma decimal_digit: "n < 10 \<Longrightarrow> decimal n = [digit_char n]"
  by (simp add: decimal.simps)

lemma decimal_step: "10 \<le> n \<Longrightarrow> decimal n = decimal (n div 10) @ [digit_char (n mod 10)]"
  by (subst decimal.simps) simp

lemmas report_eval =
  sum_allocations_def header_line_def summary_line_def func_name_def script_name_str_def
  fmt_s_def fmt_d_def fmt_zu_def fmt_u_def decimal_digit decimal_step digit_char_def

lemma unat_total_size:
  "unat (fst (sum_allocations allocs))
   = (\<Sum>a\<leftarrow>allocs. unat (size_bytes a) * unat (count a)) mod 2 ^ 64"
proof -
  have "unat (fst (sum_allocations allocs))
        = (\<Sum>a\<leftarrow>allocs. (unat (size_bytes a) * unat (count a)) mod 2 ^ 64) mod 2 ^ 64"
    by (simp add: sum_allocations_sum_list unat_sum_list unat_size_times_count)
  then show ?thesis by (simp only: sum_list_mod_cong)
qed

lemma unat_total_count:
  "unat (snd (sum_allocations allocs)) = (\<Sum>a\<leftarrow>allocs. unat (count a)) mod 2 ^ 32"
  by (simp add: sum_allocations_sum_list unat_sum_list)

lemma traverse_Some:
  "traverse (Some node) depth =
     node_lines node depth
     @ concat (map (\<lambda>child. traverse child (depth + 1)) (children node))"
  by (simp add: node_lines_def)

lemma concat_map_concat:
  "concat (map f (concat xss)) = concat (map (\<lambda>xs. concat (map f xs)) xss)"
  by (induction xss) simp_all

lemma traverse_preorder_aux:
  "traverse t d = concat (map (\<lambda>(n, k). node_lines n k) (preorder t d))"
proof (induction t d rule: traverse.induct)
  case (1 depth)
  show ?case by simp
next
  case (2 node depth)
  let ?F = "\<lambda>(n, k). node_lines n k"
  have "concat (map (\<lambda>child. traverse child (depth + 1)) (children node))
        = concat (map (\<lambda>child. concat (map ?F (preorder child (depth + 1)))) (children node))"
    using "2.IH" by (simp cong: map_cong)
  also have "\<dots> = concat (map ?F (concat (map (\<lambda>child. preorder child (depth + 1))
                                                (children node))))"
    by (simp add: concat_map_concat o_def)
  finally show ?case
    by (simp add: traverse_Some del: traverse.simps)
qed

lemma node_lines_reported:
  assumes "snd (sum_allocations (allocations node)) \<noteq> 0"
  shows "node_lines node depth =
     indent depth @ header_line node @ indent depth
     @ summary_line (fst (sum_allocations (allocations node)))
                    (snd (sum_allocations (allocations node)))"
proof (cases "sum_allocations (allocations node)")
  case (Pair total_size total_count)
  with assms have "0 < total_count" by (simp add: word_greater_zero_iff)
  with Pair show ?thesis by (simp add: node_lines_def)
qed

lemma node_lines_silent:
  assumes "snd (sum_allocations (allocations node)) = 0"
  shows "node_lines node depth = indent depth"
proof (cases "sum_allocations (allocations node)")
  case (Pair total_size total_count)
  with assms show ?thesis by (simp add: node_lines_def)
qed

lemma traverse_null_child:
  "traverse (Some (Node nm sc ln allocs (None # chs))) d
   = traverse (Some (Node nm sc ln allocs chs)) d"
  by (cases "sum_allocations allocs")
     (simp add: header_line_def func_name_def script_name_str_def)

lemma heap_spaces_loop_lines:
  "heap_spaces_loop rt
   = concat (map (\<lambda>s. ''\<newline>=== Heap Space Statistics ===\<newline>''
                      @ ''Space name: '' @ fmt_s (space_name s) @ ''\<newline>''
                      @ ''Total space size: '' @ fmt_zu (space_size s) @ '' bytes\<newline>''
                      @ ''Used space size: '' @ fmt_zu (space_used_size s)
                      @ '' bytes\<newline>'')
                 (heap_space_stats rt))"
proof -
  have "map (\<lambda>i. heap_space_block (heap_space_stats rt ! i)) [0..<length (heap_space_stats rt)]
        = map (\<lambda>s. ''\<newline>=== Heap Space Statistics ===\<newline>''
                      @ ''Space name: '' @ fmt_s (space_name s) @ ''\<newline>''
                      @ ''Total space size: '' @ fmt_zu (space_size s) @ '' bytes\<newline>''
                      @ ''Used space size: '' @ fmt_zu (space_used_size s)
                      @ '' bytes\<newline>'')
              (heap_space_stats rt)"
    by (rule nth_equalityI) (simp_all add: heap_space_block_def)
  then show ?thesis by (simp only: heap_spaces_loop_def)
qed

lemma fold_children_checked:
  assumes "\<And>child. child \<in> set chs \<Longrightarrow> g child = Inr (f child)"
  shows "fold (\<lambda>child result.
                 case result of
                   Inl fault \<Rightarrow> Inl fault
                 | Inr out \<Rightarrow>
                     (case g child of
                        Inl fault \<Rightarrow> Inl fault
                      | Inr text \<Rightarrow> Inr (out @ text)))
              chs (Inr acc)
         = (Inr (acc @ concat (map f chs)) :: fault + string)"
  using assms by (induction chs arbitrary: acc) simp_all

lemma traverse_checked_safe: "traverse_checked node depth = Inr (traverse node depth)"
proof (induction node depth rule: traverse.induct)
  case (1 depth)
  show ?case by (simp add: traverse_checked.simps)
next
  case (2 node depth)
  have loop: "fold (\<lambda>child result.
                 case result of
                   Inl fault \<Rightarrow> Inl fault
                 | Inr out \<Rightarrow>
                     (case traverse_checked child (depth + 1) of
                        Inl fault \<Rightarrow> Inl fault
                      | Inr text \<Rightarrow> Inr (out @ text)))
              (children node) (Inr (node_lines node depth))
        = Inr (node_lines node depth
               @ concat (map (\<lambda>child. traverse child (depth + 1)) (children node)))"
    by (rule fold_children_checked) (rule "2.IH")
  show ?case
    by (subst traverse_checked.simps)
       (simp only: loop deref_def traverse_Some option.simps sum.simps if_False)
qed

section \<open>The reporter\<close>

text \<open>
  Claim C1, as the code has it. The reporter prints the two lines of a node exactly
  when the node's counts add up to a non-zero \<open>total_count\<close> in 32-bit arithmetic,
  whatever the number of records. The lines then carry the sum of size times count
  modulo \<open>2 ^ 64\<close> and the sum of the counts modulo \<open>2 ^ 32\<close>, both over the node's own
  records; the children only add their own output after these lines. A node whose
  counts add up to zero prints its indentation only.
\<close>

theorem own_records_totals:
  "((\<Sum>a\<leftarrow>allocs. unat (count a)) mod 2 ^ 32 \<noteq> 0 \<longrightarrow>
      traverse (Some (Node nm sc ln allocs chs)) d =
        indent d @ header_line (Node nm sc ln allocs chs) @ indent d
        @ ''  -> Total: ''
        @ decimal ((\<Sum>a\<leftarrow>allocs. unat (size_bytes a) * unat (count a)) mod 2 ^ 64)
        @ '' bytes, Count: '' @ decimal ((\<Sum>a\<leftarrow>allocs. unat (count a)) mod 2 ^ 32)
        @ ''\<newline>''
        @ concat (map (\<lambda>child. traverse child (d + 1)) chs))
   \<and> ((\<Sum>a\<leftarrow>allocs. unat (count a)) mod 2 ^ 32 = 0 \<longrightarrow>
      traverse (Some (Node nm sc ln allocs chs)) d =
        indent d @ concat (map (\<lambda>child. traverse child (d + 1)) chs))"
proof (intro conjI impI)
  assume "(\<Sum>a\<leftarrow>allocs. unat (count a)) mod 2 ^ 32 \<noteq> 0"
  then have "unat (snd (sum_allocations allocs)) \<noteq> 0"
    by (simp only: unat_total_count simp_thms)
  then have "snd (sum_allocations (allocations (Node nm sc ln allocs chs))) \<noteq> 0"
    by (simp add: unat_eq_0)
  then show "traverse (Some (Node nm sc ln allocs chs)) d =
        indent d @ header_line (Node nm sc ln allocs chs) @ indent d
        @ ''  -> Total: ''
        @ decimal ((\<Sum>a\<leftarrow>allocs. unat (size_bytes a) * unat (count a)) mod 2 ^ 64)
        @ '' bytes, Count: '' @ decimal ((\<Sum>a\<leftarrow>allocs. unat (count a)) mod 2 ^ 32)
        @ ''\<newline>''
        @ concat (map (\<lambda>child. traverse child (d + 1)) chs)"
    by (simp add: traverse_Some node_lines_reported summary_line_def fmt_zu_def fmt_u_def
          unat_total_size unat_total_count del: traverse.simps)
next
  assume "(\<Sum>a\<leftarrow>allocs. unat (count a)) mod 2 ^ 32 = 0"
  then have "unat (snd (sum_allocations allocs)) = 0"
    by (simp only: unat_total_count simp_thms)
  then have "snd (sum_allocations (allocations (Node nm sc ln allocs chs))) = 0"
    by (simp add: unat_eq_0)
  then show "traverse (Some (Node nm sc ln allocs chs)) d =
        indent d @ concat (map (\<lambda>child. traverse child (d + 1)) chs)"
    by (simp add: traverse_Some node_lines_silent del: traverse.simps)
qed

theorem own_records_totals_witness:
  "(\<Sum>a\<leftarrow>[Allocation 16 3, Allocation 32 1]. unat (count a)) mod 2 ^ 32 \<noteq> 0
   \<and> traverse (Some (Node ''B'' ''app.js'' 12 [Allocation 16 3, Allocation 32 1]
                       [Some scenario_C])) 0
       = ''Function: B (Script: app.js, Line: 12)\<newline>  -> Total: 80 bytes, Count: 4\<newline>''
         @ traverse (Some scenario_C) 1
   \<and> (\<Sum>a\<leftarrow>[Allocation 16 0]. unat (count a)) mod 2 ^ 32 = 0
   \<and> traverse (Some (Node ''f'' ''a.js'' 7 [Allocation 16 0] [Some scenario_C])) 0
       = traverse (Some scenario_C) 1"
proof -
  have h1: "(\<Sum>a\<leftarrow>[Allocation 16 3, Allocation 32 1]. unat (count a)) mod 2 ^ 32 \<noteq> 0"
    by simp
  have h2: "(\<Sum>a\<leftarrow>[Allocation 16 0]. unat (count a)) mod 2 ^ 32 = 0"
    by simp
  from own_records_totals [of "[Allocation 16 3, Allocation 32 1]" "''B''" "''app.js''" 12
         "[Some scenario_C]" 0] h1
  have a: "traverse (Some (Node ''B'' ''app.js'' 12 [Allocation 16 3, Allocation 32 1]
                       [Some scenario_C])) 0
       = ''Function: B (Script: app.js, Line: 12)\<newline>  -> Total: 80 bytes, Count: 4\<newline>''
         @ traverse (Some scenario_C) 1"
    by (simp add: header_line_def func_name_def script_name_str_def fmt_s_def fmt_d_def
          decimal_digit decimal_step digit_char_def del: traverse.simps)
  from own_records_totals [of "[Allocation 16 0]" "''f''" "''a.js''" 7 "[Some scenario_C]" 0] h2
  have b: "traverse (Some (Node ''f'' ''a.js'' 7 [Allocation 16 0] [Some scenario_C])) 0
       = traverse (Some scenario_C) 1"
    by (simp del: traverse.simps)
  from h1 h2 a b show ?thesis by (simp only: simp_thms)
qed

text \<open>
  Claim C1 as stated fails: a node with one record of count 0 has a record and prints
  no line, and a record of \<open>2 ^ 63\<close> bytes counted twice is reported as 0 bytes.
\<close>

theorem own_records_counterexample:
  "allocations zero_count_node \<noteq> []
   \<and> traverse (Some zero_count_node) 0 = []
   \<and> (\<Sum>a\<leftarrow>allocations wrapping_node. unat (size_bytes a) * unat (count a))
       = 2 ^ 64
   \<and> traverse (Some wrapping_node) 0
       = ''Function: g (Script: a.js, Line: 9)\<newline>  -> Total: 0 bytes, Count: 2\<newline>''"
proof -
  have "allocations zero_count_node \<noteq> []"
    by (simp add: zero_count_node_def)
  moreover have "traverse (Some zero_count_node) 0 = []"
    by code_simp
  moreover have "(\<Sum>a\<leftarrow>allocations wrapping_node. unat (size_bytes a) * unat (count a)) = 2 ^ 64"
    by (simp add: wrapping_node_def)
  moreover have "traverse (Some wrapping_node) 0
       = ''Function: g (Script: a.js, Line: 9)\<newline>  -> Total: 0 bytes, Count: 2\<newline>''"
    by code_simp
  ultimately show ?thesis by (simp only: simp_thms)
qed

text \<open>
  Claim C2. The output of the traversal is the concatenation, in depth-first
  pre-order, of what each visit writes; and a visit of a node that gets a summary
  writes its indentation, the line \<^verbatim>\<open>Function: <name> (Script: <script>, Line: <n>)\<close>,
  the indentation again and, two spaces further in, the line
  \<^verbatim>\<open>-> Total: <bytes> bytes, Count: <n>\<close>.
\<close>

theorem render_preorder_exact_lines:
  "traverse t d = concat (map (\<lambda>(n, k). node_lines n k) (preorder t d))
   \<and> (snd (sum_allocations (allocations node)) \<noteq> 0 \<longrightarrow>
        node_lines node depth =
          indent depth
          @ ''Function: '' @ func_name node @ '' (Script: '' @ script_name_str node
          @ '', Line: '' @ fmt_d (line_number node) @ '')'' @ ''\<newline>''
          @ indent depth @ ''  ''
          @ ''-> Total: '' @ fmt_zu (fst (sum_allocations (allocations node)))
          @ '' bytes, Count: '' @ fmt_u (snd (sum_allocations (allocations node)))
          @ ''\<newline>'')"
proof (intro conjI impI)
  show "traverse t d = concat (map (\<lambda>(n, k). node_lines n k) (preorder t d))"
    by (rule traverse_preorder_aux)
next
  assume "snd (sum_allocations (allocations node)) \<noteq> 0"
  then show "node_lines node depth =
          indent depth
          @ ''Function: '' @ func_name node @ '' (Script: '' @ script_name_str node
          @ '', Line: '' @ fmt_d (line_number node) @ '')'' @ ''\<newline>''
          @ indent depth @ ''  ''
          @ ''-> Total: '' @ fmt_zu (fst (sum_allocations (allocations node)))
          @ '' bytes, Count: '' @ fmt_u (snd (sum_allocations (allocations node)))
          @ ''\<newline>''"
    by (simp add: node_lines_reported header_line_def summary_line_def)
qed

theorem render_preorder_exact_lines_witness:
  "snd (sum_allocations (allocations scenario_B)) \<noteq> 0
   \<and> traverse (Some scenario_root) 0
       = concat (map (\<lambda>(n, k). node_lines n k)
           [(scenario_root, 0), (scenario_A, 1), (scenario_B, 2), (scenario_C, 2)])
   \<and> node_lines scenario_B 2
       = ''    Function: B (Script: app.js, Line: 12)\<newline>      -> Total: 80 bytes, Count: 4\<newline>''
   \<and> traverse (Some scenario_root) 0
       = ''      Function: B (Script: app.js, Line: 12)\<newline>      -> Total: 80 bytes, Count: 4\<newline>    Function: C (Script: <unknown>, Line: -1)\<newline>      -> Total: 40 bytes, Count: 5\<newline>''"
proof -
  have h: "snd (sum_allocations (allocations scenario_B)) \<noteq> 0"
    by code_simp
  have p: "preorder (Some scenario_root) 0
           = [(scenario_root, 0), (scenario_A, 1), (scenario_B, 2), (scenario_C, 2)]"
    by code_simp
  have e: "indent 2
          @ ''Function: '' @ func_name scenario_B @ '' (Script: '' @ script_name_str scenario_B
          @ '', Line: '' @ fmt_d (line_number scenario_B) @ '')'' @ ''\<newline>''
          @ indent 2 @ ''  ''
          @ ''-> Total: '' @ fmt_zu (fst (sum_allocations (allocations scenario_B)))
          @ '' bytes, Count: '' @ fmt_u (snd (sum_allocations (allocations scenario_B)))
          @ ''\<newline>''
        = ''    Function: B (Script: app.js, Line: 12)\<newline>      -> Total: 80 bytes, Count: 4\<newline>''"
    by code_simp
  have t: "traverse (Some scenario_root) 0
       = ''      Function: B (Script: app.js, Line: 12)\<newline>      -> Total: 80 bytes, Count: 4\<newline>    Function: C (Script: <unknown>, Line: -1)\<newline>      -> Total: 40 bytes, Count: 5\<newline>''"
    by code_simp
  from render_preorder_exact_lines [of "Some scenario_root" 0 scenario_B 2] h p e t
  show ?thesis by (simp only: simp_thms)
qed

text \<open>
  Claim C3, as the code has it. For a profile whose root has neither children nor
  records the reporter prints the banner and the line \<^verbatim>\<open>Total samples: <n>\<close> and
  nothing after them; with no samples the second line reads \<^verbatim>\<open>Total samples: 0\<close>.
\<close>

theorem empty_profile_report:
  "PrintAllocationProfile
     (Some \<lparr>GetRootNode = Some (Node nm sc ln [] []), GetSamples = samples\<rparr>)
   = ''=== Allocation Profile ===\<newline>''
     @ ''Total samples: '' @ decimal (length samples mod 2 ^ 64) @ ''\<newline>''
   \<and> PrintAllocationProfile (Some \<lparr>GetRootNode = Some (Node nm sc ln [] []), GetSamples = []\<rparr>)
     = ''=== Allocation Profile ===\<newline>Total samples: 0\<newline>''"
  by (simp add: PrintAllocationProfile_def sum_allocations_def fmt_zu_def unat_of_nat
        decimal_digit digit_char_def)

text \<open>
  Claim C3 as stated fails: for the profile of a run without samples, whose root
  exists, the report is the two lines above, and neither of the messages by which the
  reporter says that there is nothing to report (\<^verbatim>\<open>No allocation profile available\<close>,
  \<^verbatim>\<open>No root node found\<close>) occurs in it.
\<close>

theorem empty_profile_counterexample:
  "GetSamples empty_profile = []
   \<and> GetRootNode empty_profile = Some (Node '''' '''' 0 [] [])
   \<and> PrintAllocationProfile (Some empty_profile)
       = ''=== Allocation Profile ===\<newline>Total samples: 0\<newline>''
   \<and> \<not> sublist ''No allocation profile available'' (PrintAllocationProfile (Some empty_profile))
   \<and> \<not> sublist ''No root node found'' (PrintAllocationProfile (Some empty_profile))"
  by code_simp

text \<open>
  Claim C4. A node without allocation records writes its indentation and then the
  output of the traversal of every child, in order and one level deeper; it writes
  neither a header nor a summary line.
\<close>

theorem recordless_node_children_visited:
  "traverse (Some (Node nm sc ln [] chs)) d
   = indent d @ concat (map (\<lambda>child. traverse child (d + 1)) chs)"
  by (simp add: sum_allocations_def)

text \<open>
  Claim C5. An empty function name is printed as \<^verbatim>\<open><anonymous>\<close> and an empty script
  name as \<^verbatim>\<open><unknown>\<close>. Every node with an empty function name that gets a summary
  is reported like any other node, with \<^verbatim>\<open><anonymous>\<close> in its header line, whatever
  its script name; every node with an empty script name likewise, with \<^verbatim>\<open><unknown>\<close>,
  whatever its function name; and so is a node with both names empty.
\<close>

theorem sentinel_names:
  "func_name (Node [] sc ln allocs chs) = ''<anonymous>''
   \<and> script_name_str (Node nm [] ln allocs chs) = ''<unknown>''
   \<and> (snd (sum_allocations allocs) \<noteq> 0 \<longrightarrow>
        traverse (Some (Node [] sc ln allocs chs)) d
        = indent d @ ''Function: <anonymous> (Script: ''
          @ (if sc = [] then ''<unknown>'' else fmt_s sc)
          @ '', Line: '' @ fmt_d ln @ '')\<newline>''
          @ indent d @ summary_line (fst (sum_allocations allocs)) (snd (sum_allocations allocs))
          @ concat (map (\<lambda>child. traverse child (d + 1)) chs))
   \<and> (snd (sum_allocations allocs) \<noteq> 0 \<longrightarrow>
        traverse (Some (Node nm [] ln allocs chs)) d
        = indent d @ ''Function: '' @ (if nm = [] then ''<anonymous>'' else fmt_s nm)
          @ '' (Script: <unknown>, Line: '' @ fmt_d ln @ '')\<newline>''
          @ indent d @ summary_line (fst (sum_allocations allocs)) (snd (sum_allocations allocs))
          @ concat (map (\<lambda>child. traverse child (d + 1)) chs))
   \<and> (snd (sum_allocations allocs) \<noteq> 0 \<longrightarrow>
        traverse (Some (Node [] [] ln allocs chs)) d
        = indent d @ ''Function: <anonymous> (Script: <unknown>, Line: '' @ fmt_d ln
          @ '')\<newline>''
          @ indent d @ summary_line (fst (sum_allocations allocs)) (snd (sum_allocations allocs))
          @ concat (map (\<lambda>child. traverse child (d + 1)) chs))"
  by (simp add: func_name_def script_name_str_def traverse_Some node_lines_reported
        header_line_def del: traverse.simps)

theorem sentinel_names_witness:
  "snd (sum_allocations [Allocation 8 5]) \<noteq> 0
   \<and> traverse (Some (Node [] ''app.js'' 4 [Allocation 8 5] [])) 0
       = ''Function: <anonymous> (Script: app.js, Line: 4)\<newline>  -> Total: 40 bytes, Count: 5\<newline>''
   \<and> traverse (Some (Node ''parse'' [] 0 [Allocation 8 5] [])) 0
       = ''Function: parse (Script: <unknown>, Line: 0)\<newline>  -> Total: 40 bytes, Count: 5\<newline>''
   \<and> traverse (Some (Node [] [] 0 [Allocation 8 5] [])) 0
       = ''Function: <anonymous> (Script: <unknown>, Line: 0)\<newline>  -> Total: 40 bytes, Count: 5\<newline>''"
proof -
  have h: "snd (sum_allocations [Allocation 8 5]) \<noteq> 0"
    by (simp add: sum_allocations_def)
  have s: "sum_allocations [Allocation 8 5] = (40, 5)"
    by (simp add: sum_allocations_def)
  from sentinel_names [of "''app.js''" 4 "[Allocation 8 5]" "[]" "[]" 0] h
  have a: "traverse (Some (Node [] ''app.js'' 4 [Allocation 8 5] [])) 0
       = ''Function: <anonymous> (Script: app.js, Line: 4)\<newline>  -> Total: 40 bytes, Count: 5\<newline>''"
    by (simp add: s summary_line_def fmt_s_def fmt_d_def fmt_zu_def fmt_u_def decimal_digit
          decimal_step digit_char_def del: traverse.simps)
  from sentinel_names [of "[]" 0 "[Allocation 8 5]" "[]" "''parse''" 0] h
  have b: "traverse (Some (Node ''parse'' [] 0 [Allocation 8 5] [])) 0
       = ''Function: parse (Script: <unknown>, Line: 0)\<newline>  -> Total: 40 bytes, Count: 5\<newline>''"
    by (simp add: s summary_line_def fmt_s_def fmt_d_def fmt_zu_def fmt_u_def decimal_digit
          decimal_step digit_char_def del: traverse.simps)
  from sentinel_names [of "[]" 0 "[Allocation 8 5]" "[]" "[]" 0] h
  have c: "traverse (Some (Node [] [] 0 [Allocation 8 5] [])) 0
       = ''Function: <anonymous> (Script: <unknown>, Line: 0)\<newline>  -> Total: 40 bytes, Count: 5\<newline>''"
    by (simp add: s summary_line_def fmt_d_def fmt_zu_def fmt_u_def decimal_digit decimal_step
          digit_char_def del: traverse.simps)
  from h a b c show ?thesis by (simp only: simp_thms)
qed

section \<open>The programs\<close>

text \<open>
  Claim C6, as the code has it. When its script completes, the first program prints,
  after the allocation-profile report, a block with the total heap size, the used heap
  size, the heap size limit and the number of native contexts, then for every heap
  space its name, total size and used size, and then its closing line. The second
  program, when its script completes, prints no allocation-profile report, and its
  block holds the total heap size, the used heap size and the total allocated bytes
  only.
\<close>

theorem heap_statistics_trailer:
  "(execute rt js_code = Completed prints result \<longrightarrow>
      stdout (main_embedded argv0 args rt)
      = ''=== V8 Heap Profiler Example ===\<newline>''
        @ ''Starting allocation sampling...\<newline>''
        @ ''Executing JavaScript code to generate allocations...\<newline>''
        @ ''Result: '' @ fmt_s result @ ''\<newline>''
        @ ''Stopping allocation sampling...\<newline>''
        @ PrintAllocationProfile (allocation_profile rt)
        @ ''\<newline>=== Heap Statistics ===\<newline>''
        @ ''Total heap size: '' @ fmt_zu (total_heap_size (heap_stats rt)) @ '' bytes\<newline>''
        @ ''Used heap size: '' @ fmt_zu (used_heap_size (heap_stats rt)) @ '' bytes\<newline>''
        @ ''Heap size limit: '' @ fmt_zu (heap_size_limit (heap_stats rt)) @ '' bytes\<newline>''
        @ ''Number of native contexts: ''
        @ fmt_zu (number_of_native_contexts (heap_stats rt)) @ ''\<newline>''
        @ concat (map (\<lambda>s. ''\<newline>=== Heap Space Statistics ===\<newline>''
                         @ ''Space name: '' @ fmt_s (space_name s) @ ''\<newline>''
                         @ ''Total space size: '' @ fmt_zu (space_size s) @ '' bytes\<newline>''
                         @ ''Used space size: '' @ fmt_zu (space_used_size s)
                         @ '' bytes\<newline>'')
                    (heap_space_stats rt))
        @ ''Heap profiler example completed successfully!\<newline>'')
   \<and> (files rt argv1 = Some content \<and> content \<noteq> []
        \<and> execute rt (fmt_s content) = Completed prints result \<longrightarrow>
      stdout (main_file argv0 (argv1 # rest) rt)
      = ''=== V8 Heap Profiler Example ===\<newline>''
        @ ''Starting allocation sampling...\<newline>''
        @ ''Executing JavaScript code from file: '' @ argv1 @ ''\<newline>''
        @ concat (map print_callback prints)
        @ ''Result: '' @ fmt_s result @ ''\<newline>''
        @ ''Stopping allocation sampling...\<newline>''
        @ ''\<newline>=== Basic Heap Statistics ===\<newline>''
        @ ''Total heap size: '' @ fmt_zu (total_heap_size (heap_stats rt)) @ '' bytes\<newline>''
        @ ''Used heap size: '' @ fmt_zu (used_heap_size (heap_stats rt)) @ '' bytes\<newline>''
        @ ''Total allocated bytes: '' @ fmt_zu (total_allocated_bytes (heap_stats rt))
        @ '' bytes\<newline>''
        @ ''Heap profiler example completed successfully!\<newline>'')"
proof (intro conjI impI)
  assume "execute rt js_code = Completed prints result"
  then show "stdout (main_embedded argv0 args rt)
      = ''=== V8 Heap Profiler Example ===\<newline>''
        @ ''Starting allocation sampling...\<newline>''
        @ ''Executing JavaScript code to generate allocations...\<newline>''
        @ ''Result: '' @ fmt_s result @ ''\<newline>''
        @ ''Stopping allocation sampling...\<newline>''
        @ PrintAllocationProfile (allocation_profile rt)
        @ ''\<newline>=== Heap Statistics ===\<newline>''
        @ ''Total heap size: '' @ fmt_zu (total_heap_size (heap_stats rt)) @ '' bytes\<newline>''
        @ ''Used heap size: '' @ fmt_zu (used_heap_size (heap_stats rt)) @ '' bytes\<newline>''
        @ ''Heap size limit: '' @ fmt_zu (heap_size_limit (heap_stats rt)) @ '' bytes\<newline>''
        @ ''Number of native contexts: ''
        @ fmt_zu (number_of_native_contexts (heap_stats rt)) @ ''\<newline>''
        @ concat (map (\<lambda>s. ''\<newline>=== Heap Space Statistics ===\<newline>''
                         @ ''Space name: '' @ fmt_s (space_name s) @ ''\<newline>''
                         @ ''Total space size: '' @ fmt_zu (space_size s) @ '' bytes\<newline>''
                         @ ''Used space size: '' @ fmt_zu (space_used_size s)
                         @ '' bytes\<newline>'')
                    (heap_space_stats rt))
        @ ''Heap profiler example completed successfully!\<newline>''"
    by (simp add: main_embedded_def heap_spaces_loop_lines heap_statistics_block_def)
next
  assume "files rt argv1 = Some content \<and> content \<noteq> []
        \<and> execute rt (fmt_s content) = Completed prints result"
  then show "stdout (main_file argv0 (argv1 # rest) rt)
      = ''=== V8 Heap Profiler Example ===\<newline>''
        @ ''Starting allocation sampling...\<newline>''
        @ ''Executing JavaScript code from file: '' @ argv1 @ ''\<newline>''
        @ concat (map print_callback prints)
        @ ''Result: '' @ fmt_s result @ ''\<newline>''
        @ ''Stopping allocation sampling...\<newline>''
        @ ''\<newline>=== Basic Heap Statistics ===\<newline>''
        @ ''Total heap size: '' @ fmt_zu (total_heap_size (heap_stats rt)) @ '' bytes\<newline>''
        @ ''Used heap size: '' @ fmt_zu (used_heap_size (heap_stats rt)) @ '' bytes\<newline>''
        @ ''Total allocated bytes: '' @ fmt_zu (total_allocated_bytes (heap_stats rt))
        @ '' bytes\<newline>''
        @ ''Heap profiler example completed successfully!\<newline>''"
    by (simp add: main_file_def ReadFile_def basic_heap_statistics_block_def)
qed

theorem heap_statistics_trailer_witness:
  "execute sample_runtime js_code = Completed [[''Starting'', ''test'']] ''undefined''
   \<and> (files sample_runtime ''test.js'' = Some ''gc();'' \<and> ''gc();'' \<noteq> []
        \<and> execute sample_runtime (fmt_s ''gc();'')
            = Completed [[''Starting'', ''test'']] ''undefined'')
   \<and> stdout (main_embedded ''heap-profiler'' [] sample_runtime)
       = ''=== V8 Heap Profiler Example ===\<newline>Starting allocation sampling...\<newline>Executing JavaScript code to generate allocations...\<newline>Result: undefined\<newline>Stopping allocation sampling...\<newline>=== Allocation Profile ===\<newline>Total samples: 0\<newline>      Function: B (Script: app.js, Line: 12)\<newline>      -> Total: 80 bytes, Count: 4\<newline>    Function: C (Script: <unknown>, Line: -1)\<newline>      -> Total: 40 bytes, Count: 5\<newline>\<newline>=== Heap Statistics ===\<newline>Total heap size: 1000 bytes\<newline>Used heap size: 500 bytes\<newline>Heap size limit: 4096 bytes\<newline>Number of native contexts: 1\<newline>\<newline>=== Heap Space Statistics ===\<newline>Space name: old_space\<newline>Total space size: 300 bytes\<newline>Used space size: 200 bytes\<newline>Heap profiler example completed successfully!\<newline>''
   \<and> stdout (main_file ''heap-profiler'' [''test.js''] sample_runtime)
       = ''=== V8 Heap Profiler Example ===\<newline>Starting allocation sampling...\<newline>Executing JavaScript code from file: test.js\<newline>Starting test\<newline>Result: undefined\<newline>Stopping allocation sampling...\<newline>\<newline>=== Basic Heap Statistics ===\<newline>Total heap size: 1000 bytes\<newline>Used heap size: 500 bytes\<newline>Total allocated bytes: 2000 bytes\<newline>Heap profiler example completed successfully!\<newline>''"
proof -
  have h1: "execute sample_runtime js_code = Completed [[''Starting'', ''test'']] ''undefined''"
    by (simp add: sample_runtime_def)
  have h2: "files sample_runtime ''test.js'' = Some ''gc();'' \<and> ''gc();'' \<noteq> []
        \<and> execute sample_runtime (fmt_s ''gc();'')
            = Completed [[''Starting'', ''test'']] ''undefined''"
    by (simp add: sample_runtime_def)
  have p: "PrintAllocationProfile (allocation_profile sample_runtime)
     = ''=== Allocation Profile ===\<newline>Total samples: 0\<newline>      Function: B (Script: app.js, Line: 12)\<newline>      -> Total: 80 bytes, Count: 4\<newline>    Function: C (Script: <unknown>, Line: -1)\<newline>      -> Total: 40 bytes, Count: 5\<newline>''"
    by code_simp
  note trailer = heap_statistics_trailer [of sample_runtime "[[''Starting'', ''test'']]"
      "''undefined''" "''heap-profiler''" "[]" "''test.js''" "''gc();''" "[]"]
  from trailer h1 p
  have a: "stdout (main_embedded ''heap-profiler'' [] sample_runtime)
       = ''=== V8 Heap Profiler Example ===\<newline>Starting allocation sampling...\<newline>Executing JavaScript code to generate allocations...\<newline>Result: undefined\<newline>Stopping allocation sampling...\<newline>=== Allocation Profile ===\<newline>Total samples: 0\<newline>      Function: B (Script: app.js, Line: 12)\<newline>      -> Total: 80 bytes, Count: 4\<newline>    Function: C (Script: <unknown>, Line: -1)\<newline>      -> Total: 40 bytes, Count: 5\<newline>\<newline>=== Heap Statistics ===\<newline>Total heap size: 1000 bytes\<newline>Used heap size: 500 bytes\<newline>Heap size limit: 4096 bytes\<newline>Number of native contexts: 1\<newline>\<newline>=== Heap Space Statistics ===\<newline>Space name: old_space\<newline>Total space size: 300 bytes\<newline>Used space size: 200 bytes\<newline>Heap profiler example completed successfully!\<newline>''"
    by (simp add: sample_runtime_def fmt_s_def fmt_zu_def decimal_digit decimal_step
          digit_char_def)
  from trailer h2
  have b: "stdout (main_file ''heap-profiler'' [''test.js''] sample_runtime)
       = ''=== V8 Heap Profiler Example ===\<newline>Starting allocation sampling...\<newline>Executing JavaScript code from file: test.js\<newline>Starting test\<newline>Result: undefined\<newline>Stopping allocation sampling...\<newline>\<newline>=== Basic Heap Statistics ===\<newline>Total heap size: 1000 bytes\<newline>Used heap size: 500 bytes\<newline>Total allocated bytes: 2000 bytes\<newline>Heap profiler example completed successfully!\<newline>''"
    by (simp add: sample_runtime_def print_callback_def fmt_s_def fmt_zu_def decimal_digit
          decimal_step digit_char_def)
  from h1 h2 a b show ?thesis by (simp only: simp_thms)
qed

text \<open>
  Claim C6 as stated fails on the second program: with a heap size limit of 4096 and
  one heap space \<^verbatim>\<open>old_space\<close>, its output holds neither the limit nor the name of
  the space, and no allocation-profile report comes before the block.
\<close>

theorem heap_statistics_trailer_counterexample:
  "stdout (main_file ''heap-profiler'' [''test.js''] sample_runtime)
   = ''=== V8 Heap Profiler Example ===\<newline>Starting allocation sampling...\<newline>Executing JavaScript code from file: test.js\<newline>Starting test\<newline>Result: undefined\<newline>Stopping allocation sampling...\<newline>\<newline>=== Basic Heap Statistics ===\<newline>Total heap size: 1000 bytes\<newline>Used heap size: 500 bytes\<newline>Total allocated bytes: 2000 bytes\<newline>Heap profiler example completed successfully!\<newline>''
   \<and> heap_size_limit (heap_stats sample_runtime) = 4096
   \<and> \<not> sublist ''4096'' (stdout (main_file ''heap-profiler'' [''test.js''] sample_runtime))
   \<and> map space_name (heap_space_stats sample_runtime) = [''old_space'']
   \<and> \<not> sublist ''old_space'' (stdout (main_file ''heap-profiler'' [''test.js''] sample_runtime))
   \<and> \<not> sublist ''=== Allocation Profile ==='' 
           (stdout (main_file ''heap-profiler'' [''test.js''] sample_runtime))"
  by code_simp

text \<open>
  Claim C7. Started without a script path, the second program writes the two usage
  lines to the error stream and returns 1; it has written nothing to standard output
  and made no call into the runtime. Started with a path, it begins by initialising
  the runtime.
\<close>

theorem usage_error_before_runtime:
  "main_file argv0 [] rt
   = \<lparr>stdout = [],
      stderr = ''Usage: '' @ argv0 @ '' <javascript_file>\<newline>''
               @ ''Example: '' @ argv0 @ '' test.js\<newline>'',
      calls = [], status = Exit 1\<rparr>
   \<and> status (main_file argv0 [] rt) \<noteq> Exit 0
   \<and> calls (main_file argv0 [] rt) = []
   \<and> take 6 (calls (main_file argv0 (argv1 # rest) rt))
     = [InitializeICUDefaultLocation argv0, InitializeExternalStartupData argv0,
        NewDefaultPlatform, InitializePlatform, SetFlagsFromString ''--expose-gc'', Initialize]"
  by (simp add: main_file_def ReadFile_def Let_def split: option.splits script_outcome.splits)

section \<open>Indentation, null pointers and overflow\<close>

text \<open>
  Claim C8. The output of a visit at depth \<open>d\<close> starts with \<open>2 * d\<close> spaces, whatever
  the node's records; a node without records writes these spaces and then only what
  its children write.
\<close>

theorem indentation_unconditional:
  "take (2 * d) (traverse (Some node) d) = replicate (2 * d) (CHR '' '')
   \<and> traverse (Some (Node nm sc ln [] chs)) d
     = replicate (2 * d) (CHR '' '') @ concat (map (\<lambda>child. traverse child (d + 1)) chs)"
  by (simp add: indent_replicate sum_allocations_def)

text \<open>
  Claim C9. With every pointer read made explicit, the reporter and its traversal
  never fail on a null pointer and write what the plain model writes. For a null
  profile that is \<^verbatim>\<open>No allocation profile available\<close> and nothing else; for a null
  root it is \<^verbatim>\<open>No root node found\<close> after the banner and the sample count; the
  traversal of a null node writes nothing, so a null child leaves the output of its
  parent unchanged.
\<close>

theorem null_pointers_handled:
  "PrintAllocationProfile_checked profile = Inr (PrintAllocationProfile profile)
   \<and> traverse_checked node d = Inr (traverse node d)
   \<and> PrintAllocationProfile None = ''No allocation profile available\<newline>''
   \<and> PrintAllocationProfile (Some \<lparr>GetRootNode = None, GetSamples = samples\<rparr>)
     = ''=== Allocation Profile ===\<newline>''
       @ ''Total samples: '' @ fmt_zu (of_nat (length samples)) @ ''\<newline>''
       @ ''No root node found\<newline>''
   \<and> traverse None d = []
   \<and> traverse (Some (Node nm sc ln allocs (None # chs))) d
     = traverse (Some (Node nm sc ln allocs chs)) d"
proof -
  have "PrintAllocationProfile_checked profile = Inr (PrintAllocationProfile profile)"
    by (cases profile)
       (auto simp: PrintAllocationProfile_checked_def PrintAllocationProfile_def deref_def
          traverse_checked_safe Let_def simp del: traverse.simps split: option.splits)
  then show ?thesis
    by (simp add: traverse_checked_safe PrintAllocationProfile_def traverse_null_child
          del: traverse.simps(2))
qed

text \<open>
  Claim C10. The reported total size is the sum of size times count modulo \<open>2 ^ 64\<close>
  and the reported count is the sum of the counts modulo \<open>2 ^ 32\<close>. Nothing signals
  an overflow: \<open>2 ^ 63\<close> bytes counted twice are reported as 0 bytes, and counts of
  \<open>2 ^ 32 - 1\<close> and 2 as a count of 1.
\<close>

theorem totals_wrap_around:
  "unat (fst (sum_allocations allocs))
     = (\<Sum>a\<leftarrow>allocs. unat (size_bytes a) * unat (count a)) mod 2 ^ 64
   \<and> unat (snd (sum_allocations allocs)) = (\<Sum>a\<leftarrow>allocs. unat (count a)) mod 2 ^ 32
   \<and> traverse (Some wrapping_node) 0
     = ''Function: g (Script: a.js, Line: 9)\<newline>  -> Total: 0 bytes, Count: 2\<newline>''
   \<and> traverse (Some count_wrapping_node) 0
     = ''Function: h (Script: a.js, Line: 11)\<newline>  -> Total: 4294967297 bytes, Count: 1\<newline>''"
proof -
  have "traverse (Some wrapping_node) 0
     = ''Function: g (Script: a.js, Line: 9)\<newline>  -> Total: 0 bytes, Count: 2\<newline>''"
    by (simp add: wrapping_node_def report_eval)
  moreover have "traverse (Some count_wrapping_node) 0
     = ''Function: h (Script: a.js, Line: 11)\<newline>  -> Total: 4294967297 bytes, Count: 1\<newline>''"
    by (simp add: count_wrapping_node_def report_eval)
  ultimately show ?thesis
    by (simp only: unat_total_size unat_total_count simp_thms)
qed

end
